theory Spec2Isabelle
  imports Main "HOL-Library.AList"
begin

section \<open>Schema objects\<close>

text \<open>
  The migration script \<^verbatim>\<open>42762c37b7bc_remove_name_column_for_notification_\<close> talks
  to the database only through the handle that \<^verbatim>\<open>op.batch_alter_table\<close> yields.
  The objects it names are columns (\<^verbatim>\<open>sa.Column\<close>), column types
  (\<^verbatim>\<open>sa.VARCHAR\<close>) and indexes.  \<^verbatim>\<open>sa.VARCHAR()\<close> without a length is the
  unconstrained variable-length text type, \<open>VARCHAR None\<close>.
\<close>

datatype sa_type = VARCHAR "nat option" | OtherType string

record column =
  col_name :: string
  col_type :: sa_type
  nullable :: bool
  server_default :: "string option"

text \<open>
  \<^verbatim>\<open>sa.Column(name, type, nullable=...)\<close>: the script passes no
  \<^verbatim>\<open>server_default\<close>, so the column is built without one.
\<close>

definition Column :: "string \<Rightarrow> sa_type \<Rightarrow> bool \<Rightarrow> column" where
  "Column n ty nl = \<lparr>col_name = n, col_type = ty, nullable = nl, server_default = None\<rparr>"

record index_def =
  ix_name :: string
  ix_columns :: "string list"
  ix_unique :: bool

text \<open>A stored row gives each column a value; \<open>None\<close> is SQL's NULL.\<close>

type_synonym row = "(string \<times> string option) list"

record table =
  columns :: "column list"
  indexes :: "index_def list"
  rows :: "row list"

text \<open>
  Engine errors, after the error taxonomy of the specification: an object that is not
  there, an object that is there already, a violated constraint, and any other failure
  of the engine.
\<close>

datatype error =
  ObjectNotFound string
  | ObjectAlreadyExists string
  | ConstraintViolation string
  | EngineError string

text \<open>
  A table is addressed by its schema (\<^verbatim>\<open>schema=None\<close> is the default schema) and
  its name.  The state a migration runs in is the relational database together with
  everything else (\<open>outside\<close>: files, the network, the environment).  The type of a
  table is a parameter, so that the handle can be a real engine or a test double.
\<close>

type_synonym table_key = "string option \<times> string"

record ('t, 'x) database =
  tables :: "(table_key \<times> 't) list"
  outside :: 'x

section \<open>The handle of a batch alteration\<close>

text \<open>
  \<^verbatim>\<open>batch_op\<close> is an object of the migration library; the script calls four of its
  methods.  The library is not part of the repository, so the handle is a parameter of
  the script: a record of the four operations, each turning the table under alteration
  into the altered table or raising an error.
\<close>

record 't batch_operations =
  drop_index :: "string \<Rightarrow> 't \<Rightarrow> error + 't"
  drop_column :: "string \<Rightarrow> 't \<Rightarrow> error + 't"
  add_column :: "column \<Rightarrow> 't \<Rightarrow> error + 't"
  create_index :: "string \<Rightarrow> string list \<Rightarrow> bool \<Rightarrow> 't \<Rightarrow> error + 't"

text \<open>Two statements in sequence: an exception of the first skips the second.\<close>

definition then_do :: "error + 'a \<Rightarrow> ('a \<Rightarrow> error + 'b) \<Rightarrow> error + 'b" where
  "then_do r f = (case r of Inl e \<Rightarrow> Inl e | Inr a \<Rightarrow> f a)"

text \<open>
  Modelled from the spec: \<^verbatim>\<open>op.batch_alter_table\<close> belongs to the migration library,
  which is not among the sources.  The specification describes it as "an atomic scope
  in which multiple column/index changes to one table are applied or rolled back
  together", staged on a copy of the table: the body works on the staged table, a
  failure discards the staged table and propagates, and leaving the scope without a
  failure commits it.  A table that does not exist is an object that is not found.
\<close>

definition batch_alter_table ::
  "'t batch_operations \<Rightarrow> string \<Rightarrow> string option \<Rightarrow>
   ('t batch_operations \<Rightarrow> 't \<Rightarrow> error + 't) \<Rightarrow>
   ('t, 'x) database \<Rightarrow> (error + unit) \<times> ('t, 'x) database" where
  "batch_alter_table impl table_name schema body db =
     (case map_of (tables db) (schema, table_name) of
        None \<Rightarrow> (Inl (ObjectNotFound table_name), db)
      | Some t \<Rightarrow>
          (case body impl t of
             Inl e \<Rightarrow> (Inl e, db)
           | Inr t' \<Rightarrow>
               (Inr (), db\<lparr>tables := AList.update (schema, table_name) t' (tables db)\<rparr>)))"

section \<open>The migration script\<close>

text \<open>Revision identifiers, used by Alembic.\<close>

definition revision :: string where
  "revision = ''42762c37b7bc''"

definition down_revision :: "string option" where
  "down_revision = Some ''dff8da7a6c2c''"

definition branch_labels :: "string list option" where
  "branch_labels = None"

definition depends_on :: "string list option" where
  "depends_on = None"

text \<open>
  \<^verbatim>\<open>upgrade()\<close> and \<^verbatim>\<open>downgrade()\<close> take the handle's implementation and the
  state they run in, and return \<open>Inr ()\<close> (Python's \<^verbatim>\<open>None\<close>) or the exception
  raised, with the state they leave behind.
\<close>

definition upgrade ::
  "'t batch_operations \<Rightarrow> ('t, 'x) database \<Rightarrow> (error + unit) \<times> ('t, 'x) database" where
  "upgrade impl =
     batch_alter_table impl ''flow_run_notification_policy'' None
       (\<lambda>batch_op t.
          then_do (drop_index batch_op ''ix_flow_run_notification_policy__name'' t)
            (drop_column batch_op ''name''))"

definition downgrade ::
  "'t batch_operations \<Rightarrow> ('t, 'x) database \<Rightarrow> (error + unit) \<times> ('t, 'x) database" where
  "downgrade impl =
     batch_alter_table impl ''flow_run_notification_policy'' None
       (\<lambda>batch_op t.
          then_do (add_column batch_op (Column ''name'' (VARCHAR None) False) t)
            (create_index batch_op ''ix_flow_run_notification_policy__name'' [''name''] False))"

section \<open>The engine's schema operations\<close>

text \<open>
  Modelled from the spec: the four operations of the handle are carried out by the
  migration library and the database engine, which are not among the sources.  The
  specification's error taxonomy fixes what they do: dropping an index or a column
  that does not exist is an "object not found" error, adding a column or creating an
  index that exists already is an "object already exists" error, and adding a not-null
  column without a default to a table that holds rows is a constraint violation.
  Otherwise the object is removed, or appended to the table's columns or indexes; a
  dropped column takes its values out of every row, an added column gives every row its
  default.
\<close>

definition sql_drop_index :: "string \<Rightarrow> table \<Rightarrow> error + table" where
  "sql_drop_index n t =
     (if n \<in> set (map ix_name (indexes t))
      then Inr (t\<lparr>indexes := filter (\<lambda>i. ix_name i \<noteq> n) (indexes t)\<rparr>)
      else Inl (ObjectNotFound n))"

definition sql_drop_column :: "string \<Rightarrow> table \<Rightarrow> error + table" where
  "sql_drop_column n t =
     (if n \<in> set (map col_name (columns t))
      then Inr (t\<lparr>columns := filter (\<lambda>c. col_name c \<noteq> n) (columns t),
                  rows := map (filter (\<lambda>kv. fst kv \<noteq> n)) (rows t)\<rparr>)
      else Inl (ObjectNotFound n))"

definition sql_add_column :: "column \<Rightarrow> table \<Rightarrow> error + table" where
  "sql_add_column c t =
     (if col_name c \<in> set (map col_name (columns t))
      then Inl (ObjectAlreadyExists (col_name c))
      else if \<not> nullable c \<and> server_default c = None \<and> rows t \<noteq> []
      then Inl (ConstraintViolation (col_name c))
      else Inr (t\<lparr>columns := columns t @ [c],
                  rows := map (\<lambda>r. r @ [(col_name c, server_default c)]) (rows t)\<rparr>))"

definition sql_create_index :: "string \<Rightarrow> string list \<Rightarrow> bool \<Rightarrow> table \<Rightarrow> error + table" where
  "sql_create_index n cols u t =
     (if n \<in> set (map ix_name (indexes t))
      then Inl (ObjectAlreadyExists n)
      else Inr (t\<lparr>indexes := indexes t @ [\<lparr>ix_name = n, ix_columns = cols, ix_unique = u\<rparr>]\<rparr>))"

definition engine :: "table batch_operations" where
  "engine = \<lparr>drop_index = sql_drop_index, drop_column = sql_drop_column,
             add_column = sql_add_column, create_index = sql_create_index\<rparr>"

section \<open>A recording handle\<close>

text \<open>
  A test double for the handle: it carries out nothing and appends every call it
  receives, with its arguments, to the log that stands in the table's place.
\<close>

datatype call =
  DropIndex string
  | DropColumn string
  | AddColumn column
  | CreateIndex string "string list" bool

definition recorder :: "call list batch_operations" where
  "recorder = \<lparr>drop_index = (\<lambda>n log. Inr (log @ [DropIndex n])),
               drop_column = (\<lambda>n log. Inr (log @ [DropColumn n])),
               add_column = (\<lambda>c log. Inr (log @ [AddColumn c])),
               create_index = (\<lambda>n cols u log. Inr (log @ [CreateIndex n cols u]))\<rparr>"

section \<open>Vocabulary of the properties\<close>

definition policy_table :: table_key where
  "policy_table = (None, ''flow_run_notification_policy'')"

definition has_column :: "string \<Rightarrow> table \<Rightarrow> bool" where
  "has_column n t = (n \<in> set (map col_name (columns t)))"

definition has_index :: "string \<Rightarrow> table \<Rightarrow> bool" where
  "has_index n t = (n \<in> set (map ix_name (indexes t)))"

text \<open>
  What a step must keep: everything of a table but the column \<^verbatim>\<open>name\<close> (its
  definition and its values in the rows) and the index
  \<^verbatim>\<open>ix_flow_run_notification_policy__name\<close>; and, of a state, everything outside
  the database, the tables there are, every other table, and the rest of the table of
  notification policies.
\<close>

definition others_kept :: "table \<Rightarrow> table \<Rightarrow> bool" where
  "others_kept t t' =
     (filter (\<lambda>c. col_name c \<noteq> ''name'') (columns t') =
        filter (\<lambda>c. col_name c \<noteq> ''name'') (columns t) \<and>
      filter (\<lambda>i. ix_name i \<noteq> ''ix_flow_run_notification_policy__name'') (indexes t') =
        filter (\<lambda>i. ix_name i \<noteq> ''ix_flow_run_notification_policy__name'') (indexes t) \<and>
      map (filter (\<lambda>kv. fst kv \<noteq> ''name'')) (rows t') =
        map (filter (\<lambda>kv. fst kv \<noteq> ''name'')) (rows t))"

definition elsewhere_kept :: "(table, 'x) database \<Rightarrow> (table, 'x) database \<Rightarrow> bool" where
  "elsewhere_kept db db' =
     (outside db' = outside db \<and>
      map fst (tables db') = map fst (tables db) \<and>
      filter (\<lambda>kv. fst kv \<noteq> policy_table) (tables db') =
        filter (\<lambda>kv. fst kv \<noteq> policy_table) (tables db) \<and>
      (case (map_of (tables db) policy_table, map_of (tables db') policy_table) of
         (Some t, Some t') \<Rightarrow> others_kept t t'
       | (None, None) \<Rightarrow> True
       | _ \<Rightarrow> False))"

section \<open>Example states\<close>

text \<open>
  A database with a second table beside the notification policies, and something
  outside the database.  The table of notification policies is given in the shapes
  that the properties below are tried on: before the migration (with and without a
  stored row), after it (with and without a stored row), and half-way (the index
  without its column).
\<close>

definition id_column :: column where
  "id_column = Column ''id'' (OtherType ''CHAR(36)'') False"

definition name_index :: index_def where
  "name_index = \<lparr>ix_name = ''ix_flow_run_notification_policy__name'',
                  ix_columns = [''name''], ix_unique = False\<rparr>"

definition policies_before :: table where
  "policies_before =
     \<lparr>columns = [id_column, Column ''name'' (OtherType ''TEXT'') False],
      indexes = [name_index], rows = []\<rparr>"

definition policies_before_with_row :: table where
  "policies_before_with_row =
     policies_before\<lparr>rows := [[(''id'', Some ''p1''), (''name'', Some ''on failure'')]]\<rparr>"

definition policies_after :: table where
  "policies_after = \<lparr>columns = [id_column], indexes = [], rows = []\<rparr>"

definition policies_after_with_row :: table where
  "policies_after_with_row = policies_after\<lparr>rows := [[(''id'', Some ''p1'')]]\<rparr>"

definition policies_index_only :: table where
  "policies_index_only = \<lparr>columns = [id_column], indexes = [name_index], rows = []\<rparr>"

definition example_db :: "table \<Rightarrow> string \<Rightarrow> (table, string) database" where
  "example_db t x =
     \<lparr>tables = [((None, ''flow_run''), \<lparr>columns = [id_column], indexes = [], rows = []\<rparr>),
                (policy_table, t)],
      outside = x\<rparr>"

section \<open>What the two functions compute\<close>

lemma upgrade_cases:
  "upgrade impl db =
     (case map_of (tables db) policy_table of
        None \<Rightarrow> (Inl (ObjectNotFound ''flow_run_notification_policy''), db)
      | Some t \<Rightarrow>
          (case drop_index impl ''ix_flow_run_notification_policy__name'' t of
             Inl e \<Rightarrow> (Inl e, db)
           | Inr t1 \<Rightarrow>
               (case drop_column impl ''name'' t1 of
                  Inl e \<Rightarrow> (Inl e, db)
                | Inr t2 \<Rightarrow>
                    (Inr (), db\<lparr>tables := AList.update policy_table t2 (tables db)\<rparr>))))"
  by (simp add: upgrade_def batch_alter_table_def then_do_def policy_table_def
      split: option.split sum.split)

lemma downgrade_cases:
  "downgrade impl db =
     (case map_of (tables db) policy_table of
        None \<Rightarrow> (Inl (ObjectNotFound ''flow_run_notification_policy''), db)
      | Some t \<Rightarrow>
          (case add_column impl
                  \<lparr>col_name = ''name'', col_type = VARCHAR None, nullable = False,
                   server_default = None\<rparr> t of
             Inl e \<Rightarrow> (Inl e, db)
           | Inr t1 \<Rightarrow>
               (case create_index impl ''ix_flow_run_notification_policy__name''
                       [''name''] False t1 of
                  Inl e \<Rightarrow> (Inl e, db)
                | Inr t2 \<Rightarrow>
                    (Inr (), db\<lparr>tables := AList.update policy_table t2 (tables db)\<rparr>))))"
  by (simp add: downgrade_def batch_alter_table_def then_do_def policy_table_def Column_def
      split: option.split sum.split)

lemma lookup_example: "map_of (tables (example_db t x)) policy_table = Some t"
  by (simp add: example_db_def policy_table_def)

lemma lookup_update_same: "map_of (AList.update k v al) k = Some v"
  by (simp add: AList.update_conv')

lemma keys_update_present:
  "map_of al k = Some v \<Longrightarrow> map fst (AList.update k v' al) = map fst al"
  by (induction al) (auto split: if_splits)

text \<open>
  On the engine, the forward step succeeds where the column and the index exist, and
  the backward step succeeds where neither exists and the table holds no row.
\<close>

lemma upgrade_engine_succeeds:
  assumes "map_of (tables db) policy_table = Some t"
    and "has_column ''name'' t"
    and "has_index ''ix_flow_run_notification_policy__name'' t"
  shows "upgrade engine db =
           (Inr (), db\<lparr>tables := AList.update policy_table
              (t\<lparr>indexes :=
                    filter (\<lambda>i. ix_name i \<noteq> ''ix_flow_run_notification_policy__name'')
                      (indexes t),
                 columns := filter (\<lambda>c. col_name c \<noteq> ''name'') (columns t),
                 rows := map (filter (\<lambda>kv. fst kv \<noteq> ''name'')) (rows t)\<rparr>)
              (tables db)\<rparr>)"
  using assms
  by (simp add: upgrade_cases engine_def sql_drop_index_def sql_drop_column_def
      has_column_def has_index_def)

lemma downgrade_engine_succeeds:
  assumes "map_of (tables db) policy_table = Some t"
    and "\<not> has_column ''name'' t"
    and "\<not> has_index ''ix_flow_run_notification_policy__name'' t"
    and "rows t = []"
  shows "downgrade engine db =
           (Inr (), db\<lparr>tables := AList.update policy_table
              (t\<lparr>columns := columns t @ [Column ''name'' (VARCHAR None) False],
                 indexes := indexes t @ [name_index]\<rparr>) (tables db)\<rparr>)"
  using assms
  by (cases t)
    (simp add: downgrade_cases engine_def sql_add_column_def sql_create_index_def
      has_column_def has_index_def Column_def name_index_def)

section \<open>The forward step\<close>

text \<open>
  C2: in every state in which the table \<^verbatim>\<open>flow_run_notification_policy\<close> has the
  column \<^verbatim>\<open>name\<close> and the index \<^verbatim>\<open>ix_flow_run_notification_policy__name\<close>,
  \<^verbatim>\<open>upgrade()\<close> returns successfully, and afterwards the table's columns do not
  contain \<^verbatim>\<open>name\<close> and its indexes do not contain that index.
\<close>

theorem upgrade_removes_name_column_and_index:
  assumes "map_of (tables db) policy_table = Some t"
    and "has_column ''name'' t"
    and "has_index ''ix_flow_run_notification_policy__name'' t"
  shows "\<exists>db' t'. upgrade engine db = (Inr (), db') \<and>
           map_of (tables db') policy_table = Some t' \<and>
           \<not> has_column ''name'' t' \<and>
           \<not> has_index ''ix_flow_run_notification_policy__name'' t'"
  unfolding upgrade_engine_succeeds [OF assms]
  by (auto simp add: lookup_update_same has_column_def has_index_def)

theorem upgrade_removes_name_column_and_index_witness:
  "map_of (tables (example_db policies_before ''env'')) policy_table = Some policies_before \<and>
   has_column ''name'' policies_before \<and>
   has_index ''ix_flow_run_notification_policy__name'' policies_before \<and>
   (\<exists>db' t'. upgrade engine (example_db policies_before ''env'') = (Inr (), db') \<and>
      map_of (tables db') policy_table = Some t' \<and>
      \<not> has_column ''name'' t' \<and>
      \<not> has_index ''ix_flow_run_notification_policy__name'' t')"
proof -
  have l: "map_of (tables (example_db policies_before ''env'')) policy_table
             = Some policies_before"
    by (rule lookup_example)
  have c: "has_column ''name'' policies_before"
    by (simp add: has_column_def policies_before_def Column_def id_column_def)
  have i: "has_index ''ix_flow_run_notification_policy__name'' policies_before"
    by (simp add: has_index_def policies_before_def name_index_def)
  from upgrade_removes_name_column_and_index [OF l c i] l c i show ?thesis
    by blast
qed

text \<open>
  C5: within \<^verbatim>\<open>upgrade()\<close> the index is dropped before the column, and both drops
  are issued inside one batch alteration of the table
  \<^verbatim>\<open>flow_run_notification_policy\<close>.  For every implementation of the handle, the
  column is dropped from the table that the index drop returned, a failure of the
  index drop keeps the column drop from being issued, and one update of that one table
  commits both; the recording handle receives exactly the two calls, in this order,
  on that table.
\<close>

theorem upgrade_drops_index_then_column:
  "upgrade impl db =
     (case map_of (tables db) (None, ''flow_run_notification_policy'') of
        None \<Rightarrow> (Inl (ObjectNotFound ''flow_run_notification_policy''), db)
      | Some t \<Rightarrow>
          (case drop_index impl ''ix_flow_run_notification_policy__name'' t of
             Inl e \<Rightarrow> (Inl e, db)
           | Inr t1 \<Rightarrow>
               (case drop_column impl ''name'' t1 of
                  Inl e \<Rightarrow> (Inl e, db)
                | Inr t2 \<Rightarrow>
                    (Inr (),
                     db\<lparr>tables :=
                          AList.update (None, ''flow_run_notification_policy'') t2
                            (tables db)\<rparr>))))
   \<and> upgrade recorder
       \<lparr>tables = [((None, ''flow_run''), log0),
                  ((None, ''flow_run_notification_policy''), log)],
        outside = x\<rparr> =
     (Inr (),
      \<lparr>tables = [((None, ''flow_run''), log0),
                 ((None, ''flow_run_notification_policy''),
                  log @ [DropIndex ''ix_flow_run_notification_policy__name'',
                         DropColumn ''name''])],
       outside = x\<rparr>)"
  by (simp add: upgrade_cases recorder_def policy_table_def split: option.split sum.split)

section \<open>Identity of the migration\<close>

text \<open>
  C6: the migration's identity metadata is exactly revision \<^verbatim>\<open>42762c37b7bc\<close>,
  predecessor \<^verbatim>\<open>dff8da7a6c2c\<close>, no branch label and no dependency edge.
\<close>

theorem identity_metadata:
  "revision = ''42762c37b7bc'' \<and> down_revision = Some ''dff8da7a6c2c'' \<and>
   branch_labels = None \<and> depends_on = None"
  by (simp add: revision_def down_revision_def branch_labels_def depends_on_def)

section \<open>The backward step\<close>

text \<open>
  C3, as the specification states it, has \<^verbatim>\<open>downgrade()\<close> add the column and
  create the index in every state in which the table lacks the column
  \<^verbatim>\<open>name\<close>.  Two such states in which it does neither: where the table holds a
  row, the engine refuses the not-null column without a default, the index is never
  created and the table is left without column and index; where an index of the name
  exists already, creating it fails and the added column is rolled back with it.
\<close>

theorem downgrade_adds_nothing_where_engine_refuses:
  "map_of (tables (example_db policies_after_with_row ''env'')) policy_table
     = Some policies_after_with_row \<and>
   \<not> has_column ''name'' policies_after_with_row \<and>
   downgrade engine (example_db policies_after_with_row ''env'')
     = (Inl (ConstraintViolation ''name''), example_db policies_after_with_row ''env'') \<and>
   \<not> has_index ''ix_flow_run_notification_policy__name'' policies_after_with_row \<and>
   map_of (tables (example_db policies_index_only ''env'')) policy_table
     = Some policies_index_only \<and>
   \<not> has_column ''name'' policies_index_only \<and>
   rows policies_index_only = [] \<and>
   downgrade engine (example_db policies_index_only ''env'')
     = (Inl (ObjectAlreadyExists ''ix_flow_run_notification_policy__name''),
        example_db policies_index_only ''env'')"
  by (simp add: downgrade_cases example_db_def policy_table_def engine_def
      sql_add_column_def sql_create_index_def policies_after_with_row_def policies_after_def
      policies_index_only_def id_column_def Column_def name_index_def has_column_def
      has_index_def)

text \<open>
  C3, amended: in every state in which the table of notification policies lacks the
  column \<^verbatim>\<open>name\<close>, holds no row and has no index named
  \<^verbatim>\<open>ix_flow_run_notification_policy__name\<close>, \<^verbatim>\<open>downgrade()\<close> succeeds: it
  first adds a column named \<^verbatim>\<open>name\<close>, typed as unconstrained variable-length
  text, not null and without a default, and then creates the non-unique index of that
  name over that single column, on the table that holds the new column; the table it
  leaves is the one before with this column and this index appended.  The recording
  handle receives exactly these two calls, with these arguments, in this order, and for
  every implementation of the handle the index is created on the table that adding the
  column returned.
\<close>

theorem downgrade_adds_column_then_index:
  assumes l: "map_of (tables db) policy_table = Some t"
    and c: "\<not> has_column ''name'' t"
    and i: "\<not> has_index ''ix_flow_run_notification_policy__name'' t"
    and e: "rows t = []"
  shows
    "add_column engine
       \<lparr>col_name = ''name'', col_type = VARCHAR None, nullable = False,
        server_default = None\<rparr> t =
       Inr (t\<lparr>columns := columns t @
                 [\<lparr>col_name = ''name'', col_type = VARCHAR None, nullable = False,
                   server_default = None\<rparr>]\<rparr>) \<and>
     create_index engine ''ix_flow_run_notification_policy__name'' [''name''] False
       (t\<lparr>columns := columns t @
            [\<lparr>col_name = ''name'', col_type = VARCHAR None, nullable = False,
              server_default = None\<rparr>]\<rparr>) =
       Inr (t\<lparr>columns := columns t @
                 [\<lparr>col_name = ''name'', col_type = VARCHAR None, nullable = False,
                   server_default = None\<rparr>],
               indexes := indexes t @
                 [\<lparr>ix_name = ''ix_flow_run_notification_policy__name'',
                   ix_columns = [''name''], ix_unique = False\<rparr>]\<rparr>) \<and>
     downgrade engine db =
       (Inr (),
        db\<lparr>tables := AList.update policy_table
             (t\<lparr>columns := columns t @
                   [\<lparr>col_name = ''name'', col_type = VARCHAR None, nullable = False,
                     server_default = None\<rparr>],
                 indexes := indexes t @
                   [\<lparr>ix_name = ''ix_flow_run_notification_policy__name'',
                     ix_columns = [''name''], ix_unique = False\<rparr>]\<rparr>)
             (tables db)\<rparr>) \<and>
     downgrade recorder
       \<lparr>tables = [((None, ''flow_run''), log0),
                  ((None, ''flow_run_notification_policy''), log)],
        outside = x\<rparr> =
       (Inr (),
        \<lparr>tables = [((None, ''flow_run''), log0),
                   ((None, ''flow_run_notification_policy''),
                    log @ [AddColumn \<lparr>col_name = ''name'', col_type = VARCHAR None,
                                      nullable = False, server_default = None\<rparr>,
                           CreateIndex ''ix_flow_run_notification_policy__name''
                             [''name''] False])],
         outside = x\<rparr>) \<and>
     downgrade impl db' =
       (case map_of (tables db') (None, ''flow_run_notification_policy'') of
          None \<Rightarrow> (Inl (ObjectNotFound ''flow_run_notification_policy''), db')
        | Some t0 \<Rightarrow>
            (case add_column impl
                    \<lparr>col_name = ''name'', col_type = VARCHAR None, nullable = False,
                     server_default = None\<rparr> t0 of
               Inl err \<Rightarrow> (Inl err, db')
             | Inr t1 \<Rightarrow>
                 (case create_index impl ''ix_flow_run_notification_policy__name''
                         [''name''] False t1 of
                    Inl err \<Rightarrow> (Inl err, db')
                  | Inr t2 \<Rightarrow>
                      (Inr (),
                       db'\<lparr>tables :=
                             AList.update (None, ''flow_run_notification_policy'') t2
                               (tables db')\<rparr>))))"
proof (intro conjI)
  show "add_column engine
       \<lparr>col_name = ''name'', col_type = VARCHAR None, nullable = False,
        server_default = None\<rparr> t =
       Inr (t\<lparr>columns := columns t @
                 [\<lparr>col_name = ''name'', col_type = VARCHAR None, nullable = False,
                   server_default = None\<rparr>]\<rparr>)"
    using c e by (cases t) (simp add: engine_def sql_add_column_def has_column_def)
next
  show "create_index engine ''ix_flow_run_notification_policy__name'' [''name''] False
       (t\<lparr>columns := columns t @
            [\<lparr>col_name = ''name'', col_type = VARCHAR None, nullable = False,
              server_default = None\<rparr>]\<rparr>) =
       Inr (t\<lparr>columns := columns t @
                 [\<lparr>col_name = ''name'', col_type = VARCHAR None, nullable = False,
                   server_default = None\<rparr>],
               indexes := indexes t @
                 [\<lparr>ix_name = ''ix_flow_run_notification_policy__name'',
                   ix_columns = [''name''], ix_unique = False\<rparr>]\<rparr>)"
    using i by (simp add: engine_def sql_create_index_def has_index_def)
next
  show "downgrade engine db =
       (Inr (),
        db\<lparr>tables := AList.update policy_table
             (t\<lparr>columns := columns t @
                   [\<lparr>col_name = ''name'', col_type = VARCHAR None, nullable = False,
                     server_default = None\<rparr>],
                 indexes := indexes t @
                   [\<lparr>ix_name = ''ix_flow_run_notification_policy__name'',
                     ix_columns = [''name''], ix_unique = False\<rparr>]\<rparr>)
             (tables db)\<rparr>)"
    using downgrade_engine_succeeds [OF l c i e] by (simp add: Column_def name_index_def)
next
  show "downgrade recorder
       \<lparr>tables = [((None, ''flow_run''), log0),
                  ((None, ''flow_run_notification_policy''), log)],
        outside = x\<rparr> =
       (Inr (),
        \<lparr>tables = [((None, ''flow_run''), log0),
                   ((None, ''flow_run_notification_policy''),
                    log @ [AddColumn \<lparr>col_name = ''name'', col_type = VARCHAR None,
                                      nullable = False, server_default = None\<rparr>,
                           CreateIndex ''ix_flow_run_notification_policy__name''
                             [''name''] False])],
         outside = x\<rparr>)"
    by (simp add: downgrade_cases recorder_def policy_table_def)
next
  show "downgrade impl db' =
       (case map_of (tables db') (None, ''flow_run_notification_policy'') of
          None \<Rightarrow> (Inl (ObjectNotFound ''flow_run_notification_policy''), db')
        | Some t0 \<Rightarrow>
            (case add_column impl
                    \<lparr>col_name = ''name'', col_type = VARCHAR None, nullable = False,
                     server_default = None\<rparr> t0 of
               Inl err \<Rightarrow> (Inl err, db')
             | Inr t1 \<Rightarrow>
                 (case create_index impl ''ix_flow_run_notification_policy__name''
                         [''name''] False t1 of
                    Inl err \<Rightarrow> (Inl err, db')
                  | Inr t2 \<Rightarrow>
                      (Inr (),
                       db'\<lparr>tables :=
                             AList.update (None, ''flow_run_notification_policy'') t2
                               (tables db')\<rparr>))))"
    by (simp add: downgrade_cases policy_table_def split: option.split sum.split)
qed

theorem downgrade_adds_column_then_index_witness:
  "map_of (tables (example_db policies_after ''env'')) policy_table = Some policies_after \<and>
   \<not> has_column ''name'' policies_after \<and>
   \<not> has_index ''ix_flow_run_notification_policy__name'' policies_after \<and>
   rows policies_after = [] \<and>
   add_column engine (Column ''name'' (VARCHAR None) False) policies_after =
     Inr \<lparr>columns = [id_column, Column ''name'' (VARCHAR None) False], indexes = [],
          rows = []\<rparr> \<and>
   create_index engine ''ix_flow_run_notification_policy__name'' [''name''] False
     \<lparr>columns = [id_column, Column ''name'' (VARCHAR None) False], indexes = [],
      rows = []\<rparr> =
     Inr \<lparr>columns = [id_column, Column ''name'' (VARCHAR None) False],
          indexes = [name_index], rows = []\<rparr> \<and>
   downgrade engine (example_db policies_after ''env'') =
     (Inr (), example_db
        \<lparr>columns = [id_column, Column ''name'' (VARCHAR None) False],
         indexes = [name_index], rows = []\<rparr> ''env'')"
proof -
  have l: "map_of (tables (example_db policies_after ''env'')) policy_table = Some policies_after"
    by (rule lookup_example)
  have c: "\<not> has_column ''name'' policies_after"
    by (simp add: has_column_def policies_after_def id_column_def Column_def)
  have i: "\<not> has_index ''ix_flow_run_notification_policy__name'' policies_after"
    by (simp add: has_index_def policies_after_def)
  have e: "rows policies_after = []"
    by (simp add: policies_after_def)
  note steps = downgrade_adds_column_then_index [OF l c i e]
  have a: "add_column engine (Column ''name'' (VARCHAR None) False) policies_after =
     Inr \<lparr>columns = [id_column, Column ''name'' (VARCHAR None) False], indexes = [],
          rows = []\<rparr>"
    using steps [THEN conjunct1] by (simp add: policies_after_def Column_def)
  have x: "create_index engine ''ix_flow_run_notification_policy__name'' [''name''] False
     \<lparr>columns = [id_column, Column ''name'' (VARCHAR None) False], indexes = [],
      rows = []\<rparr> =
     Inr \<lparr>columns = [id_column, Column ''name'' (VARCHAR None) False],
          indexes = [name_index], rows = []\<rparr>"
    using steps [THEN conjunct2, THEN conjunct1]
    by (simp add: policies_after_def Column_def name_index_def)
  have d: "downgrade engine (example_db policies_after ''env'') =
     (Inr (), example_db
        \<lparr>columns = [id_column, Column ''name'' (VARCHAR None) False],
         indexes = [name_index], rows = []\<rparr> ''env'')"
    using steps [THEN conjunct2, THEN conjunct2, THEN conjunct1]
    by (simp add: policies_after_def Column_def name_index_def example_db_def
        policy_table_def)
  from l c i e a x d show ?thesis by blast
qed

text \<open>
  C8: where the table lacks the column \<^verbatim>\<open>name\<close> and holds at least one row,
  \<^verbatim>\<open>downgrade()\<close> fails with the engine's constraint violation, because the
  column it adds is not null and has no default; it does not succeed, and no row is
  given a value for the new column: the state is the one before the call.
\<close>

theorem downgrade_rejects_stored_rows:
  assumes "map_of (tables db) policy_table = Some t"
    and "\<not> has_column ''name'' t"
    and "rows t \<noteq> []"
  shows "downgrade engine db = (Inl (ConstraintViolation ''name''), db)"
  using assms
  by (simp add: downgrade_cases engine_def sql_add_column_def has_column_def)

theorem downgrade_rejects_stored_rows_witness:
  "map_of (tables (example_db policies_after_with_row ''env'')) policy_table
     = Some policies_after_with_row \<and>
   \<not> has_column ''name'' policies_after_with_row \<and>
   rows policies_after_with_row \<noteq> [] \<and>
   downgrade engine (example_db policies_after_with_row ''env'')
     = (Inl (ConstraintViolation ''name''), example_db policies_after_with_row ''env'')"
proof -
  have l: "map_of (tables (example_db policies_after_with_row ''env'')) policy_table
     = Some policies_after_with_row"
    by (rule lookup_example)
  have c: "\<not> has_column ''name'' policies_after_with_row"
    by (simp add: has_column_def policies_after_with_row_def policies_after_def
        id_column_def Column_def)
  have r: "rows policies_after_with_row \<noteq> []"
    by (simp add: policies_after_with_row_def)
  from downgrade_rejects_stored_rows [OF l c r] l c r show ?thesis
    by blast
qed

section \<open>Forward, then backward\<close>

text \<open>
  C1, as the specification states it, promises the round trip for every state with the
  column and the index.  The column that \<^verbatim>\<open>downgrade()\<close> adds is not null and has
  no default, so the engine rejects it on a table that holds a row: from the state
  below, which has the not-null text column and its non-unique single-column index,
  \<^verbatim>\<open>upgrade()\<close> succeeds, \<^verbatim>\<open>downgrade()\<close> raises the constraint violation,
  and the table is left without the column and without the index.
\<close>

theorem round_trip_fails_on_stored_rows:
  "map_of (tables (example_db policies_before_with_row ''env'')) policy_table
     = Some policies_before_with_row \<and>
   Column ''name'' (OtherType ''TEXT'') False \<in> set (columns policies_before_with_row) \<and>
   \<lparr>ix_name = ''ix_flow_run_notification_policy__name'', ix_columns = [''name''],
    ix_unique = False\<rparr> \<in> set (indexes policies_before_with_row) \<and>
   upgrade engine (example_db policies_before_with_row ''env'')
     = (Inr (), example_db policies_after_with_row ''env'') \<and>
   downgrade engine (example_db policies_after_with_row ''env'')
     = (Inl (ConstraintViolation ''name''), example_db policies_after_with_row ''env'') \<and>
   map_of (tables (example_db policies_after_with_row ''env'')) policy_table
     = Some policies_after_with_row \<and>
   \<not> has_column ''name'' policies_after_with_row \<and>
   \<not> has_index ''ix_flow_run_notification_policy__name'' policies_after_with_row"
  by (simp add: upgrade_cases downgrade_cases example_db_def policy_table_def engine_def
      sql_drop_index_def sql_drop_column_def sql_add_column_def sql_create_index_def
      policies_before_with_row_def policies_before_def policies_after_with_row_def
      policies_after_def id_column_def Column_def name_index_def has_column_def
      has_index_def)

text \<open>
  C1, amended: for every state in which the table of notification policies holds no
  row and has a not-null column \<^verbatim>\<open>name\<close> and a non-unique index
  \<^verbatim>\<open>ix_flow_run_notification_policy__name\<close> over that single column,
  \<^verbatim>\<open>upgrade()\<close> followed by \<^verbatim>\<open>downgrade()\<close> succeeds and yields a table with
  exactly one column named \<^verbatim>\<open>name\<close>, not null and typed as unconstrained
  variable-length text, and exactly one index of that name, equal to the original
  index definition.
\<close>

theorem round_trip_restores_column_and_index:
  assumes l: "map_of (tables db) policy_table = Some t"
    and c: "c \<in> set (columns t)" "col_name c = ''name''" "\<not> nullable c"
    and i: "i \<in> set (indexes t)" "ix_name i = ''ix_flow_run_notification_policy__name''"
      "ix_columns i = [''name'']" "\<not> ix_unique i"
    and e: "rows t = []"
  shows "\<exists>db1 db2 t2.
           upgrade engine db = (Inr (), db1) \<and>
           downgrade engine db1 = (Inr (), db2) \<and>
           map_of (tables db2) policy_table = Some t2 \<and>
           filter (\<lambda>c. col_name c = ''name'') (columns t2) =
             [\<lparr>col_name = ''name'', col_type = VARCHAR None, nullable = False,
               server_default = None\<rparr>] \<and>
           filter (\<lambda>i. ix_name i = ''ix_flow_run_notification_policy__name'') (indexes t2) =
             [i]"
proof -
  let ?t1 = "t\<lparr>indexes :=
                    filter (\<lambda>i. ix_name i \<noteq> ''ix_flow_run_notification_policy__name'')
                      (indexes t),
                 columns := filter (\<lambda>c. col_name c \<noteq> ''name'') (columns t),
                 rows := map (filter (\<lambda>kv. fst kv \<noteq> ''name'')) (rows t)\<rparr>"
  let ?db1 = "db\<lparr>tables := AList.update policy_table ?t1 (tables db)\<rparr>"
  let ?t2 = "?t1\<lparr>columns := columns ?t1 @ [Column ''name'' (VARCHAR None) False],
                 indexes := indexes ?t1 @ [name_index]\<rparr>"
  let ?db2 = "?db1\<lparr>tables := AList.update policy_table ?t2 (tables ?db1)\<rparr>"
  from c have hc: "has_column ''name'' t"
    by (force simp add: has_column_def)
  from i have hi: "has_index ''ix_flow_run_notification_policy__name'' t"
    by (force simp add: has_index_def)
  have up: "upgrade engine db = (Inr (), ?db1)"
    using l hc hi by (rule upgrade_engine_succeeds)
  have l1: "map_of (tables ?db1) policy_table = Some ?t1"
    by (simp add: lookup_update_same)
  have nc: "\<not> has_column ''name'' ?t1"
    by (auto simp add: has_column_def)
  have ni: "\<not> has_index ''ix_flow_run_notification_policy__name'' ?t1"
    by (auto simp add: has_index_def)
  have e1: "rows ?t1 = []"
    using e by simp
  have down: "downgrade engine ?db1 = (Inr (), ?db2)"
    using l1 nc ni e1 by (rule downgrade_engine_succeeds)
  have l2: "map_of (tables ?db2) policy_table = Some ?t2"
    by (simp add: lookup_update_same)
  have cols: "filter (\<lambda>c. col_name c = ''name'') (columns ?t2) =
             [\<lparr>col_name = ''name'', col_type = VARCHAR None, nullable = False,
               server_default = None\<rparr>]"
    by (simp add: Column_def filter_empty_conv)
  have "i = name_index"
    using i(2-4) by (cases i) (simp add: name_index_def)
  then have ixs: "filter (\<lambda>i. ix_name i = ''ix_flow_run_notification_policy__name'')
            (indexes ?t2) = [i]"
    by (simp add: name_index_def filter_empty_conv)
  from up down l2 cols ixs show ?thesis by blast
qed

theorem round_trip_restores_column_and_index_witness:
  "map_of (tables (example_db policies_before ''env'')) policy_table = Some policies_before \<and>
   Column ''name'' (OtherType ''TEXT'') False \<in> set (columns policies_before) \<and>
   col_name (Column ''name'' (OtherType ''TEXT'') False) = ''name'' \<and>
   \<not> nullable (Column ''name'' (OtherType ''TEXT'') False) \<and>
   name_index \<in> set (indexes policies_before) \<and>
   ix_name name_index = ''ix_flow_run_notification_policy__name'' \<and>
   ix_columns name_index = [''name''] \<and> \<not> ix_unique name_index \<and>
   rows policies_before = [] \<and>
   (\<exists>db1 db2 t2.
      upgrade engine (example_db policies_before ''env'') = (Inr (), db1) \<and>
      downgrade engine db1 = (Inr (), db2) \<and>
      map_of (tables db2) policy_table = Some t2 \<and>
      filter (\<lambda>c. col_name c = ''name'') (columns t2) =
        [\<lparr>col_name = ''name'', col_type = VARCHAR None, nullable = False,
          server_default = None\<rparr>] \<and>
      filter (\<lambda>i. ix_name i = ''ix_flow_run_notification_policy__name'') (indexes t2) =
        [name_index])"
proof -
  have l: "map_of (tables (example_db policies_before ''env'')) policy_table
             = Some policies_before"
    by (rule lookup_example)
  have c1: "Column ''name'' (OtherType ''TEXT'') False \<in> set (columns policies_before)"
    by (simp add: policies_before_def)
  have c2: "col_name (Column ''name'' (OtherType ''TEXT'') False) = ''name''"
    by (simp add: Column_def)
  have c3: "\<not> nullable (Column ''name'' (OtherType ''TEXT'') False)"
    by (simp add: Column_def)
  have i1: "name_index \<in> set (indexes policies_before)"
    by (simp add: policies_before_def)
  have i2: "ix_name name_index = ''ix_flow_run_notification_policy__name''"
    by (simp add: name_index_def)
  have i3: "ix_columns name_index = [''name'']"
    by (simp add: name_index_def)
  have i4: "\<not> ix_unique name_index"
    by (simp add: name_index_def)
  have e: "rows policies_before = []"
    by (simp add: policies_before_def)
  from round_trip_restores_column_and_index [OF l c1 c2 c3 i1 i2 i3 i4 e]
    l c1 c2 c3 i1 i2 i3 i4 e
  show ?thesis by blast
qed

section \<open>Failure\<close>

text \<open>
  C4: whatever the handle's operations do, a failure in any of the sub-steps of the
  batch alteration performed by \<^verbatim>\<open>upgrade()\<close> or \<^verbatim>\<open>downgrade()\<close> leaves the
  state exactly as it was before the call: no partly applied change of a column or an
  index can be observed.
\<close>

theorem failed_alteration_leaves_state_unchanged:
  "(fst (upgrade impl db) = Inl e \<longrightarrow> snd (upgrade impl db) = db) \<and>
   (fst (downgrade impl db) = Inl e' \<longrightarrow> snd (downgrade impl db) = db)"
  by (simp add: upgrade_cases downgrade_cases split: option.split sum.split)

theorem failed_alteration_leaves_state_unchanged_witness:
  "fst (upgrade engine (example_db policies_index_only ''env''))
     = Inl (ObjectNotFound ''name'') \<and>
   snd (upgrade engine (example_db policies_index_only ''env''))
     = example_db policies_index_only ''env'' \<and>
   fst (downgrade engine (example_db policies_index_only ''env''))
     = Inl (ObjectAlreadyExists ''ix_flow_run_notification_policy__name'') \<and>
   snd (downgrade engine (example_db policies_index_only ''env''))
     = example_db policies_index_only ''env''"
proof -
  have u: "fst (upgrade engine (example_db policies_index_only ''env''))
     = Inl (ObjectNotFound ''name'')"
    by (simp add: upgrade_cases example_db_def policy_table_def engine_def
        sql_drop_index_def sql_drop_column_def policies_index_only_def id_column_def
        Column_def name_index_def)
  have d: "fst (downgrade engine (example_db policies_index_only ''env''))
     = Inl (ObjectAlreadyExists ''ix_flow_run_notification_policy__name'')"
    by (simp add: downgrade_cases example_db_def policy_table_def engine_def
        sql_add_column_def sql_create_index_def policies_index_only_def id_column_def
        Column_def name_index_def)
  note atomic = failed_alteration_leaves_state_unchanged
    [where impl = engine and db = "example_db policies_index_only ''env''"
      and e = "ObjectNotFound ''name''"
      and e' = "ObjectAlreadyExists ''ix_flow_run_notification_policy__name''"]
  from atomic u d show ?thesis by blast
qed

text \<open>
  C7: neither \<^verbatim>\<open>upgrade()\<close> nor \<^verbatim>\<open>downgrade()\<close> catches, translates or
  swallows an error.  For every implementation of the handle, the error that the first
  or the second operation raises is the error the function raises, unchanged, and when
  both operations succeed the function returns nothing (\<^verbatim>\<open>None\<close>, the value
  \<open>()\<close>).  On the engine this covers the violated preconditions:
  \<^verbatim>\<open>upgrade()\<close> where the index or the column does not exist raises the
  engine's "object not found", \<^verbatim>\<open>downgrade()\<close> where the column or the index
  exists already raises its "object already exists".
\<close>

theorem failures_propagate_unchanged:
  assumes "map_of (tables db) policy_table = Some t"
    and "map_of (tables sdb) policy_table = Some st"
  shows
    "(drop_index impl ''ix_flow_run_notification_policy__name'' t = Inl e \<longrightarrow>
        fst (upgrade impl db) = Inl e) \<and>
     (drop_index impl ''ix_flow_run_notification_policy__name'' t = Inr t1 \<and>
      drop_column impl ''name'' t1 = Inl e \<longrightarrow>
        fst (upgrade impl db) = Inl e) \<and>
     (drop_index impl ''ix_flow_run_notification_policy__name'' t = Inr t1 \<and>
      drop_column impl ''name'' t1 = Inr t2 \<longrightarrow>
        fst (upgrade impl db) = Inr ()) \<and>
     (add_column impl (Column ''name'' (VARCHAR None) False) t = Inl e \<longrightarrow>
        fst (downgrade impl db) = Inl e) \<and>
     (add_column impl (Column ''name'' (VARCHAR None) False) t = Inr t1 \<and>
      create_index impl ''ix_flow_run_notification_policy__name'' [''name''] False t1
        = Inl e \<longrightarrow>
        fst (downgrade impl db) = Inl e) \<and>
     (add_column impl (Column ''name'' (VARCHAR None) False) t = Inr t1 \<and>
      create_index impl ''ix_flow_run_notification_policy__name'' [''name''] False t1
        = Inr t2 \<longrightarrow>
        fst (downgrade impl db) = Inr ()) \<and>
     (\<not> has_index ''ix_flow_run_notification_policy__name'' st \<longrightarrow>
        fst (upgrade engine sdb)
          = Inl (ObjectNotFound ''ix_flow_run_notification_policy__name'')) \<and>
     (has_index ''ix_flow_run_notification_policy__name'' st \<and>
      \<not> has_column ''name'' st \<longrightarrow>
        fst (upgrade engine sdb) = Inl (ObjectNotFound ''name'')) \<and>
     (has_column ''name'' st \<longrightarrow>
        fst (downgrade engine sdb) = Inl (ObjectAlreadyExists ''name'')) \<and>
     (\<not> has_column ''name'' st \<and> rows st = [] \<and>
      has_index ''ix_flow_run_notification_policy__name'' st \<longrightarrow>
        fst (downgrade engine sdb)
          = Inl (ObjectAlreadyExists ''ix_flow_run_notification_policy__name''))"
  using assms
  by (simp add: upgrade_cases downgrade_cases Column_def engine_def sql_drop_index_def
      sql_drop_column_def sql_add_column_def sql_create_index_def has_column_def
      has_index_def)

theorem failures_propagate_unchanged_witness:
  "fst (upgrade engine (example_db policies_after ''env''))
     = Inl (ObjectNotFound ''ix_flow_run_notification_policy__name'') \<and>
   fst (upgrade engine (example_db policies_index_only ''env''))
     = Inl (ObjectNotFound ''name'') \<and>
   fst (upgrade engine (example_db policies_before ''env'')) = Inr () \<and>
   fst (downgrade engine (example_db policies_before ''env''))
     = Inl (ObjectAlreadyExists ''name'') \<and>
   fst (downgrade engine (example_db policies_index_only ''env''))
     = Inl (ObjectAlreadyExists ''ix_flow_run_notification_policy__name'') \<and>
   fst (downgrade engine (example_db policies_after ''env'')) = Inr () \<and>
   \<not> has_index ''ix_flow_run_notification_policy__name'' policies_after \<and>
   has_index ''ix_flow_run_notification_policy__name'' policies_index_only \<and>
   \<not> has_column ''name'' policies_index_only \<and>
   rows policies_index_only = [] \<and>
   has_column ''name'' policies_before"
proof -
  let ?ix = "''ix_flow_run_notification_policy__name''"
  let ?col = "Column ''name'' (VARCHAR None) False"
  note defs = engine_def sql_drop_index_def sql_drop_column_def sql_add_column_def
    sql_create_index_def policies_before_def policies_after_def policies_index_only_def
    id_column_def Column_def name_index_def has_column_def has_index_def
  (* after the migration: the index drop fails; adding column and index succeeds *)
  have a1: "drop_index engine ?ix policies_after = Inl (ObjectNotFound ?ix)"
    by (simp add: defs)
  have a2: "add_column engine ?col policies_after
              = Inr (policies_after\<lparr>columns := [id_column, ?col]\<rparr>)"
    by (simp add: defs)
  have a3: "create_index engine ?ix [''name''] False
              (policies_after\<lparr>columns := [id_column, ?col]\<rparr>)
              = Inr (policies_after\<lparr>columns := [id_column, ?col], indexes := [name_index]\<rparr>)"
    by (simp add: defs)
  have a4: "\<not> has_index ?ix policies_after"
    by (simp add: defs)
  note after = failures_propagate_unchanged
    [OF lookup_example [of policies_after "''env''"] lookup_example [of policies_after "''env''"],
      where impl = engine]
  (* half-way: the column drop fails after the index drop; the index exists already *)
  have h1: "drop_index engine ?ix policies_index_only = Inr policies_after"
    by (simp add: defs)
  have h2: "drop_column engine ''name'' policies_after = Inl (ObjectNotFound ''name'')"
    by (simp add: defs)
  have h3: "add_column engine ?col policies_index_only
              = Inr (policies_index_only\<lparr>columns := [id_column, ?col]\<rparr>)"
    by (simp add: defs)
  have h4: "create_index engine ?ix [''name''] False
              (policies_index_only\<lparr>columns := [id_column, ?col]\<rparr>)
              = Inl (ObjectAlreadyExists ?ix)"
    by (simp add: defs)
  have h5: "has_index ?ix policies_index_only \<and> \<not> has_column ''name'' policies_index_only
              \<and> rows policies_index_only = []"
    by (simp add: defs)
  note half = failures_propagate_unchanged
    [OF lookup_example [of policies_index_only "''env''"] lookup_example [of policies_index_only "''env''"],
      where impl = engine]
  (* before the migration: both drops succeed; the column exists already *)
  have b1: "drop_index engine ?ix policies_before = Inr (policies_before\<lparr>indexes := []\<rparr>)"
    by (simp add: defs)
  have b2: "drop_column engine ''name'' (policies_before\<lparr>indexes := []\<rparr>) = Inr policies_after"
    by (simp add: defs)
  have b3: "add_column engine ?col policies_before = Inl (ObjectAlreadyExists ''name'')"
    by (simp add: defs)
  have b4: "has_column ''name'' policies_before"
    by (simp add: defs)
  note before = failures_propagate_unchanged
    [OF lookup_example [of policies_before "''env''"] lookup_example [of policies_before "''env''"],
      where impl = engine]
  from after a1 a4 have w1: "fst (upgrade engine (example_db policies_after ''env''))
     = Inl (ObjectNotFound ?ix)" by blast
  from half h1 h2 h5 have w2: "fst (upgrade engine (example_db policies_index_only ''env''))
     = Inl (ObjectNotFound ''name'')" by blast
  from before b1 b2 have w3: "fst (upgrade engine (example_db policies_before ''env'')) = Inr ()"
    by blast
  from before b3 b4 have w4: "fst (downgrade engine (example_db policies_before ''env''))
     = Inl (ObjectAlreadyExists ''name'')" by blast
  from half h3 h4 h5 have w5: "fst (downgrade engine (example_db policies_index_only ''env''))
     = Inl (ObjectAlreadyExists ?ix)" by blast
  from after a2 a3 have w6: "fst (downgrade engine (example_db policies_after ''env'')) = Inr ()"
    by blast
  from w1 w2 w3 w4 w5 w6 a4 h5 b4 show ?thesis by blast
qed

section \<open>Frame\<close>

lemma others_update:
  "filter (\<lambda>kv. fst kv \<noteq> k) (AList.update k v al) = filter (\<lambda>kv. fst kv \<noteq> k) al"
  by (induction al) auto

lemma elsewhere_kept_refl:
  "elsewhere_kept db db"
  by (simp add: elsewhere_kept_def others_kept_def split: option.split)

lemma elsewhere_kept_update:
  assumes "map_of (tables db) policy_table = Some t" and "others_kept t t'"
  shows "elsewhere_kept db (db\<lparr>tables := AList.update policy_table t' (tables db)\<rparr>)"
  using assms
  by (simp add: elsewhere_kept_def others_update keys_update_present lookup_update_same)

text \<open>
  The frame is not satisfied by any change whatever: it rejects a state in which
  something outside the database differs, one in which another table was altered, and
  one in which another column of the table of notification policies was dropped.
\<close>

lemma elsewhere_kept_rejects_other_changes:
  "\<not> elsewhere_kept (example_db policies_before ''env'') (example_db policies_before ''other'') \<and>
   \<not> elsewhere_kept (example_db policies_before ''env'')
       ((example_db policies_before ''env'')
          \<lparr>tables := AList.update (None, ''flow_run'') policies_index_only
                      (tables (example_db policies_before ''env''))\<rparr>) \<and>
   \<not> elsewhere_kept (example_db policies_before ''env'')
       (example_db \<lparr>columns = [], indexes = [], rows = []\<rparr> ''env'')"
  by (simp add: elsewhere_kept_def others_kept_def example_db_def policy_table_def
      policies_before_def policies_index_only_def id_column_def Column_def name_index_def)

text \<open>
  C9: in every state, \<^verbatim>\<open>upgrade()\<close> and \<^verbatim>\<open>downgrade()\<close> change nothing but
  the column \<^verbatim>\<open>name\<close> and the index \<^verbatim>\<open>ix_flow_run_notification_policy__name\<close>
  of the table \<^verbatim>\<open>flow_run_notification_policy\<close>: every other table, every other
  column of this table with its stored values, every other index and everything
  outside the database are as before.
\<close>

theorem steps_change_name_column_and_index_only:
  "elsewhere_kept db (snd (upgrade engine db)) \<and>
   elsewhere_kept db (snd (downgrade engine db))"
proof
  show "elsewhere_kept db (snd (upgrade engine db))"
  proof (cases "fst (upgrade engine db)")
    case (Inl e)
    then have "snd (upgrade engine db) = db"
      by (simp add: upgrade_cases split: option.splits sum.splits)
    then show ?thesis by (simp add: elsewhere_kept_refl)
  next
    case (Inr u)
    then obtain t where l: "map_of (tables db) policy_table = Some t"
      and c: "has_column ''name'' t"
      and i: "has_index ''ix_flow_run_notification_policy__name'' t"
      by (auto simp add: upgrade_cases engine_def sql_drop_index_def sql_drop_column_def
          has_column_def has_index_def split: option.splits sum.splits if_splits)
    show ?thesis
      unfolding upgrade_engine_succeeds [OF l c i] snd_conv
      by (rule elsewhere_kept_update [OF l]) (simp add: others_kept_def)
  qed
next
  show "elsewhere_kept db (snd (downgrade engine db))"
  proof (cases "fst (downgrade engine db)")
    case (Inl e)
    then have "snd (downgrade engine db) = db"
      by (simp add: downgrade_cases split: option.splits sum.splits)
    then show ?thesis by (simp add: elsewhere_kept_refl)
  next
    case (Inr u)
    then obtain t where l: "map_of (tables db) policy_table = Some t"
      and c: "\<not> has_column ''name'' t"
      and i: "\<not> has_index ''ix_flow_run_notification_policy__name'' t"
      and e: "rows t = []"
      by (auto simp add: downgrade_cases engine_def sql_add_column_def sql_create_index_def
          has_column_def has_index_def split: option.splits sum.splits if_splits)
    show ?thesis
      unfolding downgrade_engine_succeeds [OF l c i e] snd_conv
      by (rule elsewhere_kept_update [OF l])
        (simp add: others_kept_def Column_def name_index_def)
  qed
qed

end
